theory Spec2Isabelle
  imports
    Complex_Main
    "HOL-Library.List_Lexorder"
    "HOL-Library.Product_Lexorder"
    "HOL-Library.Multiset"
begin

section \<open>The dashboard's data pipeline (app.py)\<close>

text \<open>
  The callbacks of app.py fetch a JSON document, reshape it into parallel columns and
  hand the columns to the plotting library. This theory embeds the reshaping of each
  callback: \<open>update_graph\<close> (the trend chart), \<open>update_counts\<close> (the four counters),
  \<open>update_province_map\<close> and \<open>update_city_map\<close> (the two maps). Layout, colours and
  hover templates are constants of the plotting library and are left out.
\<close>

subsection \<open>Python values\<close>

text \<open>
  A Python \<open>str\<close> is a sequence of Unicode code points, and the province names of the
  payload are outside ASCII, so a string is a list of code points. Python compares
  strings code point by code point, a proper prefix being smaller: the lexicographic
  order of \<open>List_Lexorder\<close>. Tuples compare component by component, the order of
  \<open>Product_Lexorder\<close>.
\<close>

type_synonym str = "nat list"

definition ascii :: "string \<Rightarrow> str" where
  "ascii s = map of_char s"

text \<open>
  The exceptions the callbacks can raise. \<open>ConnectionError\<close> and \<open>HTTPError\<close> come from
  \<open>requests.get\<close> and \<open>raise_for_status\<close>, \<open>JSONDecodeError\<close> from \<open>r.json()\<close>,
  \<open>ValueError\<close> from unpacking \<open>zip(*rows)\<close> into five names, \<open>IndexError\<close> from
  \<open>[0]\<close> and \<open>KeyError\<close> from a missing dictionary key. The last two constructors are
  the error names of the design document; no statement of app.py raises them.
\<close>

datatype error =
    ConnectionError
  | HTTPError
  | JSONDecodeError
  | ValueError
  | IndexError
  | KeyError
  | UpstreamUnavailable
  | MalformedResponse

subsection \<open>Fetching\<close>

text \<open>
  What \<open>requests.get\<close> gives: no response at all (the call raises), or a response with a
  status code and a body, which decodes to a payload or is not JSON.
\<close>

datatype 'a response = NoResponse | Response nat "'a option"

text \<open>
  Lines 180-182 (and 246-248, 265-267, 316-318):
  \<^verbatim>\<open>r = requests.get(url); r.raise_for_status(); res = r.json()\<close>.
  \<open>raise_for_status\<close> raises for the client and server error codes 400..599.
\<close>

definition get_json :: "'a response \<Rightarrow> error + 'a" where
  "get_json r =
     (case r of
        NoResponse \<Rightarrow> Inl ConnectionError
      | Response status_code body \<Rightarrow>
          if 400 \<le> status_code \<and> status_code < 600 then Inl HTTPError
          else (case body of None \<Rightarrow> Inl JSONDecodeError | Some res \<Rightarrow> Inr res))"

subsection \<open>String helpers of the Python library\<close>

text \<open>\<open>s.split(sep)\<close> for a one-character separator: always at least one piece.\<close>

fun str_split :: "nat \<Rightarrow> str \<Rightarrow> str list" where
  "str_split sep [] = [[]]"
| "str_split sep (c # cs) =
     (if c = sep then [] # str_split sep cs
      else (case str_split sep cs of
              [] \<Rightarrow> [[c]]
            | p # ps \<Rightarrow> (c # p) # ps))"

text \<open>\<open>sep.join(pieces)\<close>.\<close>

fun str_join :: "str \<Rightarrow> str list \<Rightarrow> str" where
  "str_join sep [] = []"
| "str_join sep [p] = p"
| "str_join sep (p # q # ps) = p @ sep @ str_join sep (q # ps)"

text \<open>\<open>s.rstrip(c)\<close> for a one-character \<open>c\<close>: every trailing \<open>c\<close> goes.\<close>

definition rstrip :: "nat \<Rightarrow> str \<Rightarrow> str" where
  "rstrip c s = rev (dropWhile (\<lambda>x. x = c) (rev s))"

text \<open>\<open>str(n)\<close> for a natural number: its decimal digits, no leading zero.\<close>

function decimal :: "nat \<Rightarrow> str" where
  "decimal n = (if n < 10 then [48 + n] else decimal (n div 10) @ [48 + n mod 10])"
  by pat_completeness auto
termination
  by (relation "measure id") auto

declare decimal.simps [simp del]

text \<open>
  The format specification \<open>05d\<close> of \<open>f"{n:05d}"\<close>: decimal digits, filled with zeros
  after the sign up to a minimum width of five characters.
\<close>

definition zero_fill :: "nat \<Rightarrow> str \<Rightarrow> str" where
  "zero_fill width s = replicate (width - length s) 48 @ s"

definition format_05d :: "int \<Rightarrow> str" where
  "format_05d n =
     (if n < 0 then 45 # zero_fill 4 (decimal (nat (- n)))
      else zero_fill 5 (decimal (nat n)))"

text \<open>
  \<open>a, b, c, d, e = zip(*rows)\<close> for a list of 5-tuples: the five columns, and a
  \<open>ValueError\<close> (not enough values to unpack) when the list is empty, since \<open>zip()\<close>
  of no arguments yields nothing.
\<close>

definition unzip5 ::
  "('a \<times> 'b \<times> 'c \<times> 'd \<times> 'e) list \<Rightarrow> error + ('a list \<times> 'b list \<times> 'c list \<times> 'd list \<times> 'e list)" where
  "unzip5 rows =
     (if rows = [] then Inl ValueError
      else Inr (map fst rows,
                map (fst \<circ> snd) rows,
                map (fst \<circ> snd \<circ> snd) rows,
                map (fst \<circ> snd \<circ> snd \<circ> snd) rows,
                map (snd \<circ> snd \<circ> snd \<circ> snd) rows))"

text \<open>\<open>zip(a, b, c, d, e)\<close>: the rows of five columns.\<close>

definition zip5 ::
  "'a list \<Rightarrow> 'b list \<Rightarrow> 'c list \<Rightarrow> 'd list \<Rightarrow> 'e list \<Rightarrow> ('a \<times> 'b \<times> 'c \<times> 'd \<times> 'e) list" where
  "zip5 a b c d e = zip a (zip b (zip c (zip d e)))"

subsection \<open>numpy: \<open>np.log(np.add(xs, 1))\<close>\<close>

text \<open>
  \<open>np.add(xs, 1)\<close> turns the list of Python integers into an array of numpy's default
  integer type, taken here as \<open>int64\<close>, and adds one with wrap-around. The counts are
  assumed to be in the \<open>int64\<close> range (outside it numpy picks another element type).
  \<open>np.log\<close> gives a \<open>float64\<close>: the logarithm of a positive number, \<open>-inf\<close> at zero and
  \<open>nan\<close> below. Rounding to \<open>float64\<close> is not modelled: \<open>Finite r\<close> stands for the
  float that numpy returns for the real \<open>r\<close>.
\<close>

datatype float64 = Finite real | NegInf | NaN

definition int64 :: "int \<Rightarrow> int" where
  "int64 x = (x + 2 ^ 63) mod 2 ^ 64 - 2 ^ 63"

definition np_add :: "int list \<Rightarrow> int \<Rightarrow> int list" where
  "np_add xs k = map (\<lambda>x. int64 (x + k)) xs"

definition np_log :: "int list \<Rightarrow> float64 list" where
  "np_log xs =
     map (\<lambda>x. if 0 < x then Finite (ln (real_of_int x)) else if x = 0 then NegInf else NaN) xs"

subsection \<open>The trend chart: \<open>update_graph\<close>\<close>

text \<open>One element of \<open>res["data"]["wuwei_ww_cn_day_counts"]\<close>.\<close>

record day_count =
  date :: str
  confirm :: int
  suspect :: int
  dead :: int
  heal :: int

text \<open>Line 187: \<^verbatim>\<open>f"2020-{'-'.join(i.split('/'))}"\<close>.\<close>

definition normalise_date :: "str \<Rightarrow> str" where
  "normalise_date i = ascii ''2020-'' @ str_join (ascii ''-'') (str_split 47 i)"

text \<open>
  Lines 184-190. The five columns are taken out of the records, the dates rewritten,
  the rows sorted as tuples (by date string first) and the columns taken out again.
  The result is the \<open>x\<close> of the four traces and their four \<open>y\<close>: dates, confirmeds,
  suspecteds, deads, cureds.
\<close>

definition update_graph_series ::
  "day_count list \<Rightarrow> error + (str list \<times> int list \<times> int list \<times> int list \<times> int list)" where
  "update_graph_series data =
     (case unzip5 (map (\<lambda>i. (date i, confirm i, suspect i, dead i, heal i)) data) of
        Inl e \<Rightarrow> Inl e
      | Inr (dates, confirmeds, suspecteds, deads, cureds) \<Rightarrow>
          let dates = map normalise_date dates
          in unzip5 (sort (zip5 dates confirmeds suspecteds deads cureds)))"

subsection \<open>The counters: \<open>update_counts\<close>\<close>

text \<open>The element of \<open>res["data"]["wuwei_ww_global_vars"]\<close>.\<close>

record global_vars =
  confirmCount :: int
  suspectCount :: int
  deadCount :: int
  cure :: int
  update_time :: str

text \<open>\<open>res["data"]\<close> of the first endpoint (\<open>apis["qq"]\<close>).\<close>

record qq_data =
  wuwei_ww_cn_day_counts :: "day_count list"
  wuwei_ww_global_vars :: "global_vars list"

text \<open>\<open>xs[0]\<close>: an \<open>IndexError\<close> on the empty list.\<close>

definition index0 :: "'a list \<Rightarrow> error + 'a" where
  "index0 xs = (case xs of [] \<Rightarrow> Inl IndexError | x # _ \<Rightarrow> Inr x)"

text \<open>The label before the clock reading, line 255: U+66F4 U+65B0 U+65F6 U+95F4 U+FF1A.\<close>

definition update_time_label :: str where
  "update_time_label = [26356, 26032, 26102, 38388, 65306]"

text \<open>
  Lines 245-260. \<open>now\<close> is the text of \<^verbatim>\<open>datetime.now().strftime("%Y-%m-%d %H:%M:%S")\<close>,
  the reading of the local clock. The five outputs are the text of the refresh time and
  the confirmed, suspected, dead and cured counters. Line 253 reads \<open>update_time\<close> into
  a local variable that nothing uses.
\<close>

definition update_counts :: "str \<Rightarrow> qq_data response \<Rightarrow> error + (str \<times> str \<times> str \<times> str \<times> str)" where
  "update_counts now r =
     (case get_json r of
        Inl e \<Rightarrow> Inl e
      | Inr res \<Rightarrow>
          (case index0 (wuwei_ww_global_vars res) of
             Inl e \<Rightarrow> Inl e
           | Inr g \<Rightarrow>
               (let confirmed = confirmCount g;
                    suspected = suspectCount g;
                    dead' = deadCount g;
                    cured = cure g;
                    update_time' = update_time g
                in Inr (update_time_label @ now,
                        format_05d confirmed,
                        format_05d suspected,
                        format_05d dead',
                        format_05d cured))))"

text \<open>Lines 179-190 with the fetch.\<close>

definition update_graph ::
  "qq_data response \<Rightarrow> error + (str list \<times> int list \<times> int list \<times> int list \<times> int list)" where
  "update_graph r =
     (case get_json r of
        Inl e \<Rightarrow> Inl e
      | Inr res \<Rightarrow> update_graph_series (wuwei_ww_cn_day_counts res))"

subsection \<open>The maps: \<open>update_province_map\<close> and \<open>update_city_map\<close>\<close>

text \<open>An element of a province's \<open>cities\<close> list.\<close>

record city =
  cityName :: str
  city_confirmedCount :: int
  city_suspectedCount :: int
  city_curedCount :: int
  city_deadCount :: int

text \<open>
  An element of \<open>res["data"]["getAreaStat"]\<close>. The key \<open>cities\<close> may be absent
  (\<open>None\<close>): \<open>province['cities']\<close> then raises \<open>KeyError\<close>.
\<close>

record province =
  provinceName :: str
  provinceShortName :: str
  confirmedCount :: int
  suspectedCount :: int
  curedCount :: int
  deadCount :: int
  cities :: "city list option"

text \<open>\<open>res["data"]\<close> of the second endpoint (\<open>apis["dxy"]\<close>).\<close>

record dxy_data =
  getAreaStat :: "province list"

text \<open>
  Line 50: Beijing, Shanghai, Tianjin, Chongqing and Taiwan, as code points
  (U+5317 U+4EAC, U+4E0A U+6D77, U+5929 U+6D25, U+91CD U+5E86, U+53F0 U+6E7E).
\<close>

definition municipalities :: "str list" where
  "municipalities =
     [[21271, 20140], [19978, 28023], [22825, 27941], [37325, 24198], [21488, 28286]]"

text \<open>The suffixes of line 272: U+7701 (province) and U+5E02 (city).\<close>

definition sheng :: nat where
  "sheng = 30465"

definition shi :: nat where
  "shi = 24066"

text \<open>
  The five parallel lists that both map callbacks build: names, confirmeds,
  suspecteds, cureds, deads.
\<close>

type_synonym columns = "str list \<times> int list \<times> int list \<times> int list \<times> int list"

text \<open>One \<open>append\<close> on each of the five lists.\<close>

fun append_row :: "columns \<Rightarrow> str \<times> int \<times> int \<times> int \<times> int \<Rightarrow> columns" where
  "append_row (names, confirmeds, suspecteds, cureds, deads) (n, c, s, u, d) =
     (names @ [n], confirmeds @ [c], suspecteds @ [s], cureds @ [u], deads @ [d])"

text \<open>What the plotting library receives: \<open>locations\<close>, \<open>z\<close> and the \<open>customdata\<close> rows
  (the transposed stack of the five columns; numpy's conversion of the stacked
  values to text is not modelled).\<close>

record choropleth =
  locations :: "str list"
  z :: "float64 list"
  customdata :: "(str \<times> int \<times> int \<times> int \<times> int) list"

text \<open>Lines 272-276: the tuple taken from one province entry.\<close>

definition province_row :: "province \<Rightarrow> str \<times> int \<times> int \<times> int \<times> int" where
  "province_row i =
     (rstrip shi (rstrip sheng (provinceName i)),
      confirmedCount i, suspectedCount i, curedCount i, deadCount i)"

text \<open>Lines 269-311, after the fetch.\<close>

definition province_map :: "province list \<Rightarrow> error + choropleth" where
  "province_map data =
     (case unzip5 (map province_row data) of
        Inl e \<Rightarrow> Inl e
      | Inr (provinces, confirmeds, suspecteds, cureds, deads) \<Rightarrow>
          (let confirmeds_log = np_log (np_add confirmeds 1)
           in Inr \<lparr>locations = provinces, z = confirmeds_log,
                   customdata = zip5 provinces confirmeds suspecteds cureds deads\<rparr>))"

definition update_province_map :: "dxy_data response \<Rightarrow> error + choropleth" where
  "update_province_map r =
     (case get_json r of
        Inl e \<Rightarrow> Inl e
      | Inr res \<Rightarrow> province_map (getAreaStat res))"

text \<open>Lines 331-336: the inner loop over \<open>province['cities']\<close>.\<close>

fun city_loop :: "city list \<Rightarrow> columns \<Rightarrow> columns" where
  "city_loop [] t = t"
| "city_loop (c # cs) t =
     city_loop cs
       (append_row t
          (cityName c, city_confirmedCount c, city_suspectedCount c,
           city_curedCount c, city_deadCount c))"

text \<open>
  Lines 321-336: the loop over the provinces. A municipality appends its own
  province-level counts and \<open>continue\<close>s; any other province is read through its
  \<open>cities\<close> key.
\<close>

fun province_loop :: "province list \<Rightarrow> columns \<Rightarrow> error + columns" where
  "province_loop [] t = Inr t"
| "province_loop (p # ps) t =
     (if provinceShortName p \<in> set municipalities then
        province_loop ps
          (append_row t
             (provinceShortName p, confirmedCount p, suspectedCount p,
              curedCount p, deadCount p))
      else
        (case cities p of
           None \<Rightarrow> Inl KeyError
         | Some cs \<Rightarrow> province_loop ps (city_loop cs t)))"

text \<open>Line 320 and the loop: the city table.\<close>

definition city_table :: "province list \<Rightarrow> error + columns" where
  "city_table data = province_loop data ([], [], [], [], [])"

text \<open>
  The file \<open>cities_data.csv\<close>: absent, or holding the data frame that \<open>to_csv\<close> wrote
  last (its five columns; the text of the file is not modelled, and the write is
  taken to succeed).
\<close>

record files =
  cities_data_csv :: "columns option"

text \<open>Lines 315-377: the payload is fetched, the table built, written and drawn.\<close>

definition update_city_map :: "dxy_data response \<Rightarrow> files \<Rightarrow> (error + choropleth) \<times> files" where
  "update_city_map r fs =
     (case get_json r of
        Inl e \<Rightarrow> (Inl e, fs)
      | Inr res \<Rightarrow>
          (case city_table (getAreaStat res) of
             Inl e \<Rightarrow> (Inl e, fs)
           | Inr (names, confirmeds, suspecteds, cureds, deads) \<Rightarrow>
               (let confirmeds_log = np_log (np_add confirmeds 1);
                    df = (names, confirmeds, suspecteds, cureds, deads)
                in (Inr \<lparr>locations = names, z = confirmeds_log,
                         customdata = zip5 names confirmeds suspecteds cureds deads\<rparr>,
                    fs\<lparr>cities_data_csv := Some df\<rparr>))))"

subsection \<open>Notions of the specification\<close>

text \<open>The row that one daily record contributes to the trend chart.\<close>

definition day_row :: "day_count \<Rightarrow> str \<times> int \<times> int \<times> int \<times> int" where
  "day_row i = (normalise_date (date i), confirm i, suspect i, dead i, heal i)"

text \<open>A decimal digit, and the number a non-empty digit string denotes.\<close>

definition digit :: "nat \<Rightarrow> bool" where
  "digit c = (48 \<le> c \<and> c \<le> 57)"

definition parse_nat :: "str \<Rightarrow> nat option" where
  "parse_nat s =
     (if s \<noteq> [] \<and> list_all digit s
      then Some (foldl (\<lambda>acc c. 10 * acc + (c - 48)) 0 s) else None)"

text \<open>
  The calendar date that a text \<open>Y-M-D\<close> denotes, as (year, month, day), and the order
  of two such texts as calendar dates.
\<close>

definition calendar :: "str \<Rightarrow> (nat \<times> nat \<times> nat) option" where
  "calendar s =
     (case str_split 45 s of
        [y, m, d] \<Rightarrow>
          (case (parse_nat y, parse_nat m, parse_nat d) of
             (Some y', Some m', Some d') \<Rightarrow> Some (y', m', d')
           | _ \<Rightarrow> None)
      | _ \<Rightarrow> None)"

definition calendar_le :: "str \<Rightarrow> str \<Rightarrow> bool" where
  "calendar_le a b =
     (case (calendar a, calendar b) of
        (Some x, Some y) \<Rightarrow> x \<le> y
      | _ \<Rightarrow> False)"

text \<open>A date of the payload written with two digits for the month and two for the day.\<close>

definition two_digit_date :: "str \<Rightarrow> bool" where
  "two_digit_date s =
     (case s of
        [m1, m2, sep, d1, d2] \<Rightarrow> digit m1 \<and> digit m2 \<and> sep = 47 \<and> digit d1 \<and> digit d2
      | _ \<Rightarrow> False)"

text \<open>The rows of two tables, one after the other.\<close>

fun append_columns :: "columns \<Rightarrow> columns \<Rightarrow> columns" where
  "append_columns (n1, c1, s1, u1, d1) (n2, c2, s2, u2, d2) =
     (n1 @ n2, c1 @ c2, s1 @ s2, u1 @ u2, d1 @ d2)"


text \<open>The row of one nested city entry.\<close>

definition city_row :: "city \<Rightarrow> str \<times> int \<times> int \<times> int \<times> int" where
  "city_row c =
     (cityName c, city_confirmedCount c, city_suspectedCount c,
      city_curedCount c, city_deadCount c)"

text \<open>The five columns of a list of rows.\<close>

definition columns_of :: "(str \<times> int \<times> int \<times> int \<times> int) list \<Rightarrow> columns" where
  "columns_of rows =
     (map fst rows, map (fst \<circ> snd) rows, map (fst \<circ> snd \<circ> snd) rows,
      map (fst \<circ> snd \<circ> snd \<circ> snd) rows, map (snd \<circ> snd \<circ> snd \<circ> snd) rows)"

text \<open>A count that \<open>np.add\<close> and \<open>np.log\<close> treat as a non-negative \<open>int64\<close> below the
  largest one.\<close>

definition count_in_range :: "int \<Rightarrow> bool" where
  "count_in_range c = (0 \<le> c \<and> c < 2 ^ 63 - 1)"

text \<open>The confirmed count of a row.\<close>

definition confirmed_of :: "str \<times> int \<times> int \<times> int \<times> int \<Rightarrow> int" where
  "confirmed_of row = fst (snd row)"

text \<open>Two lists of global variables that differ at most in their \<open>update_time\<close>.\<close>

definition same_but_update_time :: "global_vars list \<Rightarrow> global_vars list \<Rightarrow> bool" where
  "same_but_update_time gs hs =
     list_all2 (\<lambda>g h. h = g\<lparr>update_time := update_time h\<rparr>) gs hs"

subsection \<open>Sample payloads\<close>

definition sample_days :: "day_count list" where
  "sample_days =
     [\<lparr>date = ascii ''01/24'', confirm = 1287, suspect = 1965, dead = 41, heal = 38\<rparr>,
      \<lparr>date = ascii ''01/23'', confirm = 830, suspect = 1072, dead = 25, heal = 34\<rparr>]"

definition unpadded_days :: "day_count list" where
  "unpadded_days =
     [\<lparr>date = ascii ''2/9'', confirm = 37198, suspect = 28942, dead = 811, heal = 2649\<rparr>,
      \<lparr>date = ascii ''2/10'', confirm = 40171, suspect = 23589, dead = 908, heal = 3281\<rparr>]"

text \<open>Hubei (U+6E56 U+5317 U+7701) with Wuhan and Xiaogan; Beijing (U+5317 U+4EAC U+5E02)
  with one nested district.\<close>

definition sample_hubei :: province where
  "sample_hubei =
     \<lparr>provinceName = [28246, 21271, 30465], provinceShortName = [28246, 21271],
      confirmedCount = 1000, suspectedCount = 0, curedCount = 42, deadCount = 52,
      cities = Some
        [\<lparr>cityName = [27494, 27721], city_confirmedCount = 618, city_suspectedCount = 0,
          city_curedCount = 40, city_deadCount = 45\<rparr>,
         \<lparr>cityName = [23389, 24863], city_confirmedCount = 0, city_suspectedCount = 0,
          city_curedCount = 0, city_deadCount = 0\<rparr>]\<rparr>"


definition sample_globals :: global_vars where
  "sample_globals =
     \<lparr>confirmCount = 830, suspectCount = 1072, deadCount = 25, cure = 34,
      update_time = ascii ''2020-01-24 00:15''\<rparr>"

definition sample_clock :: str where
  "sample_clock = ascii ''2020-01-24 08:00:00''"

section \<open>Auxiliary facts\<close>

subsection \<open>Columns and rows\<close>

lemma unzip5_nonempty:
  "rows \<noteq> [] \<Longrightarrow> unzip5 rows = Inr (map fst rows, map (fst \<circ> snd) rows, map (fst \<circ> snd \<circ> snd) rows,
      map (fst \<circ> snd \<circ> snd \<circ> snd) rows, map (snd \<circ> snd \<circ> snd \<circ> snd) rows)"
  by (simp add: unzip5_def)

lemma zip5_columns:
  "zip5 (map fst rows) (map (fst \<circ> snd) rows) (map (fst \<circ> snd \<circ> snd) rows)
      (map (fst \<circ> snd \<circ> snd \<circ> snd) rows) (map (snd \<circ> snd \<circ> snd \<circ> snd) rows) = rows"
  by (induction rows) (auto simp: zip5_def)

lemma zip5_day_rows:
  "zip5 (map normalise_date (map fst (map (\<lambda>i. (date i, confirm i, suspect i, dead i, heal i)) data)))
        (map (fst \<circ> snd) (map (\<lambda>i. (date i, confirm i, suspect i, dead i, heal i)) data))
        (map (fst \<circ> snd \<circ> snd) (map (\<lambda>i. (date i, confirm i, suspect i, dead i, heal i)) data))
        (map (fst \<circ> snd \<circ> snd \<circ> snd) (map (\<lambda>i. (date i, confirm i, suspect i, dead i, heal i)) data))
        (map (snd \<circ> snd \<circ> snd \<circ> snd) (map (\<lambda>i. (date i, confirm i, suspect i, dead i, heal i)) data))
   = map day_row data"
  by (induction data) (auto simp: zip5_def day_row_def)

lemma update_graph_series_rows:
  assumes "data \<noteq> []"
  shows "update_graph_series data =
     Inr (map fst (sort (map day_row data)),
          map (fst \<circ> snd) (sort (map day_row data)),
          map (fst \<circ> snd \<circ> snd) (sort (map day_row data)),
          map (fst \<circ> snd \<circ> snd \<circ> snd) (sort (map day_row data)),
          map (snd \<circ> snd \<circ> snd \<circ> snd) (sort (map day_row data)))"
proof -
  let ?raw = "map (\<lambda>i. (date i, confirm i, suspect i, dead i, heal i)) data"
  have ne0: "?raw \<noteq> []"
    using assms by simp
  have ne: "sort (map day_row data) \<noteq> []"
    using assms by (metis length_sort length_map length_0_conv)
  show ?thesis
    unfolding update_graph_series_def unzip5_nonempty [OF ne0]
    by (simp only: sum.case prod.case Let_def zip5_day_rows unzip5_nonempty [OF ne])
qed

lemma sorted_map_fst:
  fixes rows :: "('a::linorder \<times> 'b::linorder) list"
  shows "sorted rows \<Longrightarrow> sorted (map fst rows)"
  by (induction rows) (auto simp: less_eq_prod_def)

lemma normalise_two_digit:
  assumes "two_digit_date s"
  shows "\<exists>m1 m2 d1 d2. digit m1 \<and> digit m2 \<and> digit d1 \<and> digit d2 \<and>
           normalise_date s = [50, 48, 50, 48, 45, m1, m2, 45, d1, d2]"
proof -
  from assms obtain m1 m2 d1 d2 where s: "s = [m1, m2, 47, d1, d2]"
    and d: "digit m1" "digit m2" "digit d1" "digit d2"
    by (auto simp: two_digit_date_def split: list.splits)
  have "normalise_date s = [50, 48, 50, 48, 45, m1, m2, 45, d1, d2]"
    using d by (auto simp: s normalise_date_def ascii_def digit_def)
  with d show ?thesis by blast
qed

lemma calendar_two_digit:
  assumes "digit m1" "digit m2" "digit d1" "digit d2"
  shows "calendar [50, 48, 50, 48, 45, m1, m2, 45, d1, d2] =
           Some (2020, 10 * (m1 - 48) + (m2 - 48), 10 * (d1 - 48) + (d2 - 48))"
  using assms by (auto simp: calendar_def parse_nat_def digit_def)

lemma calendar_le_two_digit:
  assumes a: "digit m1" "digit m2" "digit d1" "digit d2"
      and b: "digit n1" "digit n2" "digit e1" "digit e2"
      and le: "[50, 48, 50, 48, 45, m1, m2, 45, d1, d2] \<le> [50, 48, 50, 48, 45, n1, n2, 45, e1, (e2::nat)]"
  shows "calendar_le [50, 48, 50, 48, 45, m1, m2, 45, d1, d2] [50, 48, 50, 48, 45, n1, n2, 45, e1, e2]"
proof -
  have "(10 * (m1 - 48) + (m2 - 48), 10 * (d1 - 48) + (d2 - 48))
          \<le> (10 * (n1 - 48) + (n2 - 48), 10 * (e1 - 48) + (e2 - 48))"
    using le a b by (auto simp: digit_def less_eq_prod_def)
  then show ?thesis
    by (simp add: calendar_le_def calendar_two_digit a b less_eq_prod_def)
qed

lemma calendar_le_normalised:
  assumes "two_digit_date s" "two_digit_date t" "normalise_date s \<le> normalise_date t"
  shows "calendar_le (normalise_date s) (normalise_date t)"
proof -
  from normalise_two_digit [OF assms(1)] obtain m1 m2 d1 d2 where
    s: "digit m1" "digit m2" "digit d1" "digit d2"
       "normalise_date s = [50, 48, 50, 48, 45, m1, m2, 45, d1, d2]" by blast
  from normalise_two_digit [OF assms(2)] obtain n1 n2 e1 e2 where
    t: "digit n1" "digit n2" "digit e1" "digit e2"
       "normalise_date t = [50, 48, 50, 48, 45, n1, n2, 45, e1, e2]" by blast
  show ?thesis
    using calendar_le_two_digit [OF s(1-4) t(1-4)] assms(3)
    unfolding s(5) t(5) by blast
qed


lemma sorted_wrt_calendar:
  assumes "sorted ds" "\<forall>d \<in> set ds. \<exists>s. two_digit_date s \<and> d = normalise_date s"
  shows "sorted_wrt calendar_le ds"
  using assms
proof (induction ds)
  case Nil
  then show ?case by simp
next
  case (Cons d ds)
  have "calendar_le d e" if "e \<in> set ds" for e
  proof -
    from Cons.prems(2) obtain s where s: "two_digit_date s" "d = normalise_date s" by auto
    from Cons.prems(2) that obtain t where t: "two_digit_date t" "e = normalise_date t" by auto
    from Cons.prems(1) that have "d \<le> e" by auto
    then show ?thesis using calendar_le_normalised s t by blast
  qed
  moreover have "sorted_wrt calendar_le ds"
    using Cons by auto
  ultimately show ?case by simp
qed




lemma append_columns_empty [simp]:
  "append_columns t ([], [], [], [], []) = t" "append_columns ([], [], [], [], []) t = t"
  by (cases t; simp)+

lemma append_columns_assoc:
  "append_columns (append_columns a b) c = append_columns a (append_columns b c)"
  by (cases a; cases b; cases c) simp

lemma append_row_columns:
  "append_row t row = append_columns t (columns_of [row])"
  by (cases t; cases row) (simp add: columns_of_def)

lemma columns_of_append:
  "columns_of (xs @ ys) = append_columns (columns_of xs) (columns_of ys)"
  by (simp add: columns_of_def)



lemma city_loop_rows:
  "city_loop cs t = append_columns t (columns_of (map city_row cs))"
proof (induction cs arbitrary: t)
  case Nil
  show ?case by (simp add: columns_of_def)
next
  case (Cons c cs)
  have "city_loop (c # cs) t = city_loop cs (append_row t (city_row c))"
    by (simp add: city_row_def)
  also have "\<dots> = append_columns (append_row t (city_row c)) (columns_of (map city_row cs))"
    by (rule Cons.IH)
  also have "\<dots> = append_columns t (append_columns (columns_of [city_row c]) (columns_of (map city_row cs)))"
    by (simp only: append_row_columns append_columns_assoc)
  also have "\<dots> = append_columns t (columns_of (map city_row (c # cs)))"
    by (simp add: columns_of_def)
  finally show ?case .
qed





section \<open>The trend chart\<close>

text \<open>
  What the sort of lines 188-190 gives for every non-empty list of daily records: five
  sequences of the length of the input; dates that are non-decreasing in the order of
  Python strings (code point by code point); rows at equal indices that are the input
  rows, sorted, so every value stays with its date. When every date of the payload has
  two digits for the month and two for the day, the order of the strings is the order
  of the calendar.
\<close>

lemma update_graph_rows_sorted:
  assumes "data \<noteq> []"
  shows "\<exists>dates confirmeds suspecteds deads cureds.
           update_graph_series data = Inr (dates, confirmeds, suspecteds, deads, cureds)
         \<and> sorted dates
         \<and> length dates = length data
         \<and> length confirmeds = length dates
         \<and> length suspecteds = length dates
         \<and> length deads = length dates
         \<and> length cureds = length dates
         \<and> zip5 dates confirmeds suspecteds deads cureds = sort (map day_row data)
         \<and> mset (zip5 dates confirmeds suspecteds deads cureds) = mset (map day_row data)
         \<and> (list_all (two_digit_date \<circ> date) data \<longrightarrow> sorted_wrt calendar_le dates)"
proof -
  let ?rows = "sort (map day_row data)"
  let ?dates = "map fst ?rows"
  have srt: "sorted ?dates"
    by (rule sorted_map_fst) simp
  have cal: "sorted_wrt calendar_le ?dates" if pad: "list_all (two_digit_date \<circ> date) data"
  proof (rule sorted_wrt_calendar [OF srt], rule ballI)
    fix d assume "d \<in> set ?dates"
    then have "d \<in> fst ` set (map day_row data)" by simp
    then obtain i where i: "i \<in> set data" "d = normalise_date (date i)"
      by (auto simp: day_row_def)
    with pad have "two_digit_date (date i)"
      by (auto simp: list_all_iff)
    with i show "\<exists>s. two_digit_date s \<and> d = normalise_date s" by blast
  qed
  show ?thesis
    unfolding update_graph_series_rows [OF assms]
    using srt cal by (simp add: zip5_columns)
qed

lemma update_graph_rows_sorted_example:
  "sample_days \<noteq> [] \<and> list_all (two_digit_date \<circ> date) sample_days
   \<and> update_graph_series sample_days =
        Inr ([ascii ''2020-01-23'', ascii ''2020-01-24''], [830, 1287], [1072, 1965], [25, 41], [34, 38])
   \<and> sorted [ascii ''2020-01-23'', ascii ''2020-01-24'']
   \<and> sorted_wrt calendar_le [ascii ''2020-01-23'', ascii ''2020-01-24'']"
proof -
  have ne: "sample_days \<noteq> []"
    by (simp add: sample_days_def)
  have pad: "list_all (two_digit_date \<circ> date) sample_days"
    by (simp add: sample_days_def two_digit_date_def digit_def ascii_def)
  have run: "update_graph_series sample_days =
        Inr ([ascii ''2020-01-23'', ascii ''2020-01-24''], [830, 1287], [1072, 1965], [25, 41], [34, 38])"
    by code_simp
  from update_graph_rows_sorted [OF ne] pad run
  show ?thesis using ne by auto
qed

text \<open>
  C1. For every well-formed, non-empty payload the output dates are to be non-decreasing
  as calendar dates, the four value sequences as long as the date sequence and aligned
  with it. Lengths and alignment hold (the lemma above). The order does not: the rows are
  sorted by the text of the date, and on the dates \<open>2/9\<close> and \<open>2/10\<close>, written as
  the payload writes \<open>1/23\<close>, the 10th of February is placed before the 9th.
\<close>

theorem update_graph_misorders_unpadded_dates:
  "update_graph_series unpadded_days =
        Inr ([ascii ''2020-2-10'', ascii ''2020-2-9''], [40171, 37198], [23589, 28942], [908, 811], [3281, 2649])
   \<and> calendar (ascii ''2020-2-10'') = Some (2020, 2, 10)
   \<and> calendar (ascii ''2020-2-9'') = Some (2020, 2, 9)
   \<and> \<not> sorted_wrt calendar_le [ascii ''2020-2-10'', ascii ''2020-2-9'']"
  by code_simp

text \<open>
  C2. On the empty list of daily records the claim expects five empty sequences and no
  error. The code raises instead: \<open>zip(*[])\<close> yields nothing, and unpacking nothing
  into five names is a \<open>ValueError\<close> (line 184).
\<close>

theorem update_graph_empty_raises:
  "update_graph_series [] = Inl ValueError"
  by (simp add: update_graph_series_def unzip5_def)

section \<open>The city table\<close>





subsection \<open>Logarithmic intensity\<close>

lemma int64_in_range:
  assumes "count_in_range c"
  shows "int64 (c + 1) = c + 1"
proof -
  have "0 \<le> c + 1 + 2 ^ 63" "c + 1 + 2 ^ 63 < (2 ^ 64 :: int)"
    using assms by (simp_all add: count_in_range_def)
  then have "(c + 1 + 2 ^ 63) mod 2 ^ 64 = c + 1 + 2 ^ 63"
    by (rule mod_pos_pos_trivial)
  then show ?thesis by (simp add: int64_def)
qed

lemma confirmeds_log_rows:
  assumes "list_all (count_in_range \<circ> confirmed_of) rows"
  shows "np_log (np_add (map (fst \<circ> snd) rows) 1) =
           map (\<lambda>row. Finite (ln (real_of_int (confirmed_of row) + 1))) rows"
proof -
  have step: "(if 0 < int64 (fst (snd row) + 1) then Finite (ln (real_of_int (int64 (fst (snd row) + 1))))
               else if int64 (fst (snd row) + 1) = 0 then NegInf else NaN)
              = Finite (ln (real_of_int (confirmed_of row) + 1))"
    if "row \<in> set rows" for row
  proof -
    from assms that have r: "count_in_range (fst (snd row))"
      by (simp add: list_all_iff confirmed_of_def)
    then have "0 < fst (snd row) + 1"
      by (simp add: count_in_range_def)
    then show ?thesis
      by (simp add: int64_in_range [OF r] confirmed_of_def)
  qed
  have "np_log (np_add (map (fst \<circ> snd) rows) 1) =
          map (\<lambda>row. if 0 < int64 (fst (snd row) + 1) then Finite (ln (real_of_int (int64 (fst (snd row) + 1))))
               else if int64 (fst (snd row) + 1) = 0 then NegInf else NaN) rows"
    by (simp add: np_log_def np_add_def comp_def)
  also have "\<dots> = map (\<lambda>row. Finite (ln (real_of_int (confirmed_of row) + 1))) rows"
    by (rule map_cong [OF refl]) (rule step)
  finally show ?thesis .
qed

lemma province_loop_columns:
  "province_loop ps (columns_of acc) = Inr t \<Longrightarrow> \<exists>rows. t = columns_of rows"
proof (induction ps arbitrary: acc)
  case Nil
  then show ?case by auto
next
  case (Cons p ps)
  show ?case
  proof (cases "provinceShortName p \<in> set municipalities")
    case True
    let ?row = "(provinceShortName p, confirmedCount p, suspectedCount p, curedCount p, deadCount p)"
    have "append_row (columns_of acc) ?row = columns_of (acc @ [?row])"
      by (simp add: append_row_columns columns_of_append)
    with Cons.prems True have "province_loop ps (columns_of (acc @ [?row])) = Inr t"
      by simp
    then show ?thesis by (rule Cons.IH)
  next
    case False
    with Cons.prems obtain cs where cs: "cities p = Some cs"
      by (cases "cities p") auto
    have "city_loop cs (columns_of acc) = columns_of (acc @ map city_row cs)"
      by (simp add: city_loop_rows columns_of_append)
    with Cons.prems False cs have "province_loop ps (columns_of (acc @ map city_row cs)) = Inr t"
      by simp
    then show ?thesis by (rule Cons.IH)
  qed
qed

lemma city_table_columns:
  assumes "city_table data = Inr t"
  shows "\<exists>rows. t = columns_of rows"
proof -
  have "columns_of [] = ([], [], [], [], [])"
    by (simp add: columns_of_def)
  with assms have "province_loop data (columns_of []) = Inr t"
    by (simp add: city_table_def)
  then show ?thesis by (rule province_loop_columns)
qed

lemma province_map_figure:
  assumes "province_map data = Inr fig"
  shows "data \<noteq> [] \<and> customdata fig = map province_row data
       \<and> locations fig = map fst (map province_row data)
       \<and> z fig = np_log (np_add (map (fst \<circ> snd) (map province_row data)) 1)"
proof -
  have ne: "map province_row data \<noteq> []"
    using assms by (auto simp: province_map_def unzip5_def)
  have "province_map data =
     Inr \<lparr>locations = map fst (map province_row data),
          z = np_log (np_add (map (fst \<circ> snd) (map province_row data)) 1),
          customdata = map province_row data\<rparr>"
    unfolding province_map_def unzip5_nonempty [OF ne]
    by (simp only: sum.case prod.case Let_def zip5_columns)
  with assms ne show ?thesis by auto
qed

lemma update_city_map_figure:
  assumes "fst (update_city_map r fs) = Inr fig"
  shows "\<exists>rows. customdata fig = rows \<and> locations fig = map fst rows
       \<and> z fig = np_log (np_add (map (fst \<circ> snd) rows) 1)
       \<and> cities_data_csv (snd (update_city_map r fs)) = Some (columns_of rows)"
proof -
  from assms obtain res where res: "get_json r = Inr res"
    by (cases "get_json r") (auto simp: update_city_map_def)
  from assms res obtain t where t: "city_table (getAreaStat res) = Inr t"
    by (cases "city_table (getAreaStat res)") (auto simp: update_city_map_def)
  from city_table_columns [OF t] obtain rows where rows: "t = columns_of rows" by blast
  have run: "update_city_map r fs =
     (Inr \<lparr>locations = map fst rows, z = np_log (np_add (map (fst \<circ> snd) rows) 1),
           customdata = rows\<rparr>,
      fs\<lparr>cities_data_csv := Some (columns_of rows)\<rparr>)"
    by (simp add: update_city_map_def res t rows columns_of_def zip5_columns)
  with assms show ?thesis by auto
qed

section \<open>The two maps\<close>

text \<open>
  C5. In the figure of the province map and in the figure of the city map, the intensity
  \<open>z\<close> of every row is the natural logarithm of the row's confirmed count plus one; a
  row with no confirmed case has intensity 0. The counts are non-negative \<open>int64\<close>
  values below the largest one, and the rounding of \<open>np.log\<close> to a float is not
  modelled.
\<close>

theorem intensity_is_ln:
  assumes "update_province_map r = Inr fig \<or> fst (update_city_map r fs) = Inr fig"
      and "list_all (count_in_range \<circ> confirmed_of) (customdata fig)"
  shows "z fig = map (\<lambda>row. Finite (ln (real_of_int (confirmed_of row) + 1))) (customdata fig)
       \<and> list_all2 (\<lambda>row v. confirmed_of row = 0 \<longrightarrow> v = Finite 0) (customdata fig) (z fig)"
proof -
  have "z fig = np_log (np_add (map (fst \<circ> snd) (customdata fig)) 1)"
    using assms(1)
  proof
    assume p: "update_province_map r = Inr fig"
    then obtain res where "get_json r = Inr res" "province_map (getAreaStat res) = Inr fig"
      by (cases "get_json r") (auto simp: update_province_map_def)
    from province_map_figure [OF this(2)] show ?thesis by simp
  next
    assume "fst (update_city_map r fs) = Inr fig"
    from update_city_map_figure [OF this] show ?thesis by auto
  qed
  then have 1: "z fig = map (\<lambda>row. Finite (ln (real_of_int (confirmed_of row) + 1))) (customdata fig)"
    by (simp only: confirmeds_log_rows [OF assms(2)])
  have 2: "list_all2 (\<lambda>row v. confirmed_of row = 0 \<longrightarrow> v = Finite 0) (customdata fig) (z fig)"
    unfolding 1 by (simp add: list_all2_map2 list_all2_same)
  from 1 2 show ?thesis by blast
qed

theorem intensity_is_ln_witness:
  "fst (update_city_map (Response 200 (Some \<lparr>getAreaStat = [sample_hubei]\<rparr>)) \<lparr>cities_data_csv = None\<rparr>) =
     Inr \<lparr>locations = [[27494, 27721], [23389, 24863]],
          z = [Finite (ln 619), Finite 0],
          customdata = [([27494, 27721], 618, 0, 40, 45), ([23389, 24863], 0, 0, 0, 0)]\<rparr>
   \<and> list_all (count_in_range \<circ> confirmed_of)
        [([27494, 27721], 618, 0, 40, 45), ([23389, 24863], 0, 0, 0, 0)]
   \<and> [Finite (ln 619), Finite 0] =
        map (\<lambda>row. Finite (ln (real_of_int (confirmed_of row) + 1)))
          [([27494, 27721], 618, 0, 40, 45), ([23389, 24863], 0, 0, 0, 0)]
   \<and> update_province_map (Response 200 (Some \<lparr>getAreaStat = [sample_hubei]\<rparr>)) =
     Inr \<lparr>locations = [[28246, 21271]], z = [Finite (ln 1001)],
          customdata = [([28246, 21271], 1000, 0, 42, 52)]\<rparr>"
proof -
  let ?r = "Response 200 (Some \<lparr>getAreaStat = [sample_hubei]\<rparr>)"
  let ?fig = "\<lparr>locations = [[27494, 27721], [23389, 24863]],
          z = [Finite (ln 619), Finite 0],
          customdata = [([27494, 27721], 618, 0, 40, 45), ([23389, 24863], 0, 0, 0, 0)]\<rparr>"
  have run: "fst (update_city_map ?r \<lparr>cities_data_csv = None\<rparr>) = Inr ?fig"
    by (simp add: update_city_map_def get_json_def city_table_def sample_hubei_def
        municipalities_def np_log_def np_add_def int64_def zip5_def)
  have rng: "list_all (count_in_range \<circ> confirmed_of) (customdata ?fig)"
    by (simp add: count_in_range_def confirmed_of_def)
  have prov: "update_province_map ?r =
     Inr \<lparr>locations = [[28246, 21271]], z = [Finite (ln 1001)],
          customdata = [([28246, 21271], 1000, 0, 42, 52)]\<rparr>"
    by (simp add: update_province_map_def get_json_def province_map_def unzip5_def
        province_row_def rstrip_def sheng_def shi_def sample_hubei_def
        np_log_def np_add_def int64_def zip5_def)
  from intensity_is_ln [OF disjI2 [OF run] rng] run rng prov
  show ?thesis by simp
qed

subsection \<open>Stripping the suffixes\<close>

lemma rstrip_decompose:
  "\<exists>k. s = rstrip c s @ replicate k c"
proof -
  let ?P = "\<lambda>x. x = c"
  have "rev s = takeWhile ?P (rev s) @ dropWhile ?P (rev s)"
    by simp
  then have "s = rev (dropWhile ?P (rev s)) @ rev (takeWhile ?P (rev s))"
    by (metis rev_append rev_rev_ident)
  moreover have "takeWhile ?P (rev s) = replicate (length (takeWhile ?P (rev s))) c"
    by (rule replicate_length_same [symmetric]) (auto dest: set_takeWhileD)
  ultimately have "s = rstrip c s @ replicate (length (takeWhile ?P (rev s))) c"
    by (metis rstrip_def rev_replicate)
  then show ?thesis ..
qed

lemma rstrip_last:
  assumes "rstrip c s \<noteq> []"
  shows "last (rstrip c s) \<noteq> c"
proof -
  from assms have ne: "dropWhile (\<lambda>x. x = c) (rev s) \<noteq> []"
    by (simp add: rstrip_def)
  then have "hd (dropWhile (\<lambda>x. x = c) (rev s)) \<noteq> c"
    by (rule hd_dropWhile)
  with ne show ?thesis
    by (simp add: rstrip_def last_rev)
qed

lemma rstrip_unchanged:
  assumes "s = [] \<or> last s \<noteq> c"
  shows "rstrip c s = s"
proof (cases s rule: rev_cases)
  case Nil
  then show ?thesis by (simp add: rstrip_def)
next
  case (snoc xs x)
  with assms have "x \<noteq> c" by simp
  with snoc show ?thesis by (simp add: rstrip_def)
qed

lemma rstrip_snoc:
  assumes "s = [] \<or> last s \<noteq> c"
  shows "rstrip c (s @ [c]) = s"
proof -
  have "rstrip c (s @ [c]) = rstrip c s"
    by (simp add: rstrip_def)
  with rstrip_unchanged [OF assms] show ?thesis by simp
qed

lemma join_key_decompose:
  "\<exists>a b. name = rstrip shi (rstrip sheng name) @ replicate a shi @ replicate b sheng
       \<and> (rstrip shi (rstrip sheng name) \<noteq> [] \<longrightarrow> last (rstrip shi (rstrip sheng name)) \<noteq> shi)
       \<and> (a = 0 \<and> rstrip shi (rstrip sheng name) \<noteq> [] \<longrightarrow> last (rstrip shi (rstrip sheng name)) \<noteq> sheng)"
proof -
  let ?s1 = "rstrip sheng name"
  let ?key = "rstrip shi ?s1"
  from rstrip_decompose [of name sheng] obtain b where b: "name = ?s1 @ replicate b sheng" ..
  from rstrip_decompose [of ?s1 shi] obtain a where a: "?s1 = ?key @ replicate a shi" ..
  have 1: "name = ?key @ replicate a shi @ replicate b sheng"
    using a b by (metis append_assoc)
  have 2: "?key \<noteq> [] \<longrightarrow> last ?key \<noteq> shi"
    using rstrip_last [of shi ?s1] by blast
  have 3: "a = 0 \<and> ?key \<noteq> [] \<longrightarrow> last ?key \<noteq> sheng"
  proof
    assume h: "a = 0 \<and> ?key \<noteq> []"
    with a have eq: "?s1 = ?key" by simp
    with h have "?s1 \<noteq> []" by simp
    from rstrip_last [OF this] eq show "last ?key \<noteq> sheng" by simp
  qed
  from 1 2 3 show ?thesis by blast
qed

text \<open>
  C6. The join key of a province entry is its display name after \<open>rstrip\<close> of the
  province suffix and then of the city suffix: the name is the key, followed by a run of
  city suffixes, followed by a run of province suffixes; the key does not end in the
  city suffix, and it does not end in the province suffix either unless a city suffix
  was stripped after it. So a name that is a stem plus one suffix gives the stem. The
  entry named Hubei-province with 1000 confirmed cases gives the key Hubei and the
  intensity \<open>ln 1001\<close>.
\<close>

theorem province_join_key:
  "(province_map data = Inr fig \<and> n < length data \<longrightarrow>
      length (locations fig) = length data
    \<and> locations fig ! n = rstrip shi (rstrip sheng (provinceName (data ! n)))
    \<and> (\<exists>a b. provinceName (data ! n) = locations fig ! n @ replicate a shi @ replicate b sheng
         \<and> (locations fig ! n \<noteq> [] \<longrightarrow> last (locations fig ! n) \<noteq> shi)
         \<and> (a = 0 \<and> locations fig ! n \<noteq> [] \<longrightarrow> last (locations fig ! n) \<noteq> sheng)))
   \<and> ((stem = [] \<or> (last stem \<noteq> sheng \<and> last stem \<noteq> shi)) \<longrightarrow>
        fst (province_row (i\<lparr>provinceName := stem @ [sheng]\<rparr>)) = stem
      \<and> fst (province_row (i\<lparr>provinceName := stem @ [shi]\<rparr>)) = stem
      \<and> fst (province_row (i\<lparr>provinceName := stem\<rparr>)) = stem)
   \<and> (provinceName j = [28246, 21271, 30465] \<and> confirmedCount j = 1000 \<longrightarrow>
        (\<exists>cd. province_map [j] =
           Inr \<lparr>locations = [[28246, 21271]], z = [Finite (ln 1001)], customdata = cd\<rparr>))"
proof -
  have 1: "length (locations fig) = length data
    \<and> locations fig ! n = rstrip shi (rstrip sheng (provinceName (data ! n)))
    \<and> (\<exists>a b. provinceName (data ! n) = locations fig ! n @ replicate a shi @ replicate b sheng
         \<and> (locations fig ! n \<noteq> [] \<longrightarrow> last (locations fig ! n) \<noteq> shi)
         \<and> (a = 0 \<and> locations fig ! n \<noteq> [] \<longrightarrow> last (locations fig ! n) \<noteq> sheng))"
    if h: "province_map data = Inr fig" "n < length data"
  proof -
    from province_map_figure [OF h(1)] have loc: "locations fig = map fst (map province_row data)"
      by blast
    with h(2) have key: "locations fig ! n = rstrip shi (rstrip sheng (provinceName (data ! n)))"
      by (simp add: province_row_def)
    from loc key join_key_decompose [of "provinceName (data ! n)"] show ?thesis
      by simp
  qed
  have 2: "fst (province_row (i\<lparr>provinceName := stem @ [sheng]\<rparr>)) = stem
      \<and> fst (province_row (i\<lparr>provinceName := stem @ [shi]\<rparr>)) = stem
      \<and> fst (province_row (i\<lparr>provinceName := stem\<rparr>)) = stem"
    if h: "stem = [] \<or> (last stem \<noteq> sheng \<and> last stem \<noteq> shi)"
  proof -
    from h have a: "stem = [] \<or> last stem \<noteq> sheng" and b: "stem = [] \<or> last stem \<noteq> shi"
      by auto
    have ne: "sheng \<noteq> shi" by (simp add: sheng_def shi_def)
    have "rstrip shi (rstrip sheng (stem @ [sheng])) = stem"
      by (simp add: rstrip_snoc [OF a] rstrip_unchanged [OF b])
    moreover have "rstrip sheng (stem @ [shi]) = stem @ [shi]"
      using ne by (intro rstrip_unchanged) simp
    then have "rstrip shi (rstrip sheng (stem @ [shi])) = stem"
      by (simp add: rstrip_snoc [OF b])
    moreover have "rstrip shi (rstrip sheng stem) = stem"
      by (simp add: rstrip_unchanged [OF a] rstrip_unchanged [OF b])
    ultimately show ?thesis by (simp add: province_row_def)
  qed
  have 3: "\<exists>cd. province_map [j] =
           Inr \<lparr>locations = [[28246, 21271]], z = [Finite (ln 1001)], customdata = cd\<rparr>"
    if h: "provinceName j = [28246, 21271, 30465] \<and> confirmedCount j = 1000"
    using h by (simp add: province_map_def unzip5_def province_row_def rstrip_def sheng_def shi_def
        np_log_def np_add_def int64_def)
  from 1 2 3 show ?thesis by blast
qed

theorem province_join_key_witness:
  "province_map [sample_hubei] =
     Inr \<lparr>locations = [[28246, 21271]], z = [Finite (ln 1001)],
          customdata = [([28246, 21271], 1000, 0, 42, 52)]\<rparr>
   \<and> (0::nat) < length [sample_hubei]
   \<and> provinceName sample_hubei = [28246, 21271, 30465]
   \<and> confirmedCount sample_hubei = 1000
   \<and> [28246, 21271] = rstrip shi (rstrip sheng [28246, 21271, 30465])
   \<and> fst (province_row (sample_hubei\<lparr>provinceName := [21271, 20140] @ [shi]\<rparr>)) = [21271, 20140]"
proof -
  let ?fig = "\<lparr>locations = [[28246, 21271]], z = [Finite (ln 1001)],
          customdata = [([28246, 21271], 1000, 0, 42, 52)]\<rparr>"
  have run: "province_map [sample_hubei] = Inr ?fig"
    by (simp add: province_map_def unzip5_def province_row_def rstrip_def sheng_def shi_def
        sample_hubei_def np_log_def np_add_def int64_def zip5_def)
  have len: "(0::nat) < length [sample_hubei]" by simp
  have nm: "provinceName sample_hubei = [28246, 21271, 30465]" "confirmedCount sample_hubei = 1000"
    by (simp_all add: sample_hubei_def)
  have stem: "[21271, 20140] = [] \<or> (last [21271, 20140] \<noteq> sheng \<and> last [21271, 20140] \<noteq> shi)"
    by (simp add: sheng_def shi_def)
  from province_join_key [of "[sample_hubei]" ?fig 0 "[21271, 20140]" sample_hubei sample_hubei]
    run len nm stem
  show ?thesis by simp
qed

section \<open>A failed fetch\<close>

text \<open>
  C7 (as amended). When the fetch for the city map fails, \<open>update_city_map\<close> raises the
  exception of the \<open>requests\<close> library, returns no figure and leaves \<open>cities_data.csv\<close>
  as it was: \<open>ConnectionError\<close> when the request gets no response, \<open>HTTPError\<close> when
  the response has an error status (400 to 599, for example 500). Whatever the fetch
  raises, the file is left as it was and the error is never \<open>UpstreamUnavailable\<close>.
  The callback keeps no snapshot of its own and changes no other state.
\<close>

theorem city_refresh_fetch_failure:
  "update_city_map NoResponse fs = (Inl ConnectionError, fs)
   \<and> (400 \<le> status_code \<and> status_code < 600 \<longrightarrow>
        update_city_map (Response status_code body) fs = (Inl HTTPError, fs))
   \<and> (get_json r = Inl e \<longrightarrow>
        update_city_map r fs = (Inl e, fs)
      \<and> cities_data_csv (snd (update_city_map r fs)) = cities_data_csv fs
      \<and> e \<noteq> UpstreamUnavailable)"
proof -
  have 1: "update_city_map NoResponse fs = (Inl ConnectionError, fs)"
    by (simp add: update_city_map_def get_json_def)
  have 2: "400 \<le> status_code \<and> status_code < 600 \<longrightarrow>
        update_city_map (Response status_code body) fs = (Inl HTTPError, fs)"
    by (simp add: update_city_map_def get_json_def)
  have 3: "update_city_map r fs = (Inl e, fs)
      \<and> cities_data_csv (snd (update_city_map r fs)) = cities_data_csv fs
      \<and> e \<noteq> UpstreamUnavailable" if h: "get_json r = Inl e"
  proof -
    from h have "e \<noteq> UpstreamUnavailable"
      by (auto simp: get_json_def split: response.splits if_splits option.splits)
    with h show ?thesis
      by (simp add: update_city_map_def)
  qed
  from 1 2 3 show ?thesis by blast
qed

theorem city_refresh_fetch_failure_witness:
  "(400::nat) \<le> 500 \<and> (500::nat) < 600
   \<and> update_city_map (Response 500 None)
         \<lparr>cities_data_csv = Some ([[27494, 27721]], [618], [0], [40], [45])\<rparr> =
       (Inl HTTPError, \<lparr>cities_data_csv = Some ([[27494, 27721]], [618], [0], [40], [45])\<rparr>)
   \<and> update_city_map NoResponse
         \<lparr>cities_data_csv = Some ([[27494, 27721]], [618], [0], [40], [45])\<rparr> =
       (Inl ConnectionError, \<lparr>cities_data_csv = Some ([[27494, 27721]], [618], [0], [40], [45])\<rparr>)
   \<and> get_json (Response 200 None :: dxy_data response) = Inl JSONDecodeError
   \<and> update_city_map (Response 200 None)
         \<lparr>cities_data_csv = Some ([[27494, 27721]], [618], [0], [40], [45])\<rparr> =
       (Inl JSONDecodeError, \<lparr>cities_data_csv = Some ([[27494, 27721]], [618], [0], [40], [45])\<rparr>)"
proof -
  let ?fs = "\<lparr>cities_data_csv = Some ([[27494, 27721]], [618], [0], [40], [45])\<rparr>"
  have st: "(400::nat) \<le> 500 \<and> (500::nat) < 600" by simp
  have j: "get_json (Response 200 None :: dxy_data response) = Inl JSONDecodeError"
    by (simp add: get_json_def)
  note w = city_refresh_fetch_failure [of ?fs 500 None "Response 200 None" JSONDecodeError]
  from w have 1: "update_city_map NoResponse ?fs = (Inl ConnectionError, ?fs)"
    by (rule conjunct1)
  from w st have 2: "update_city_map (Response 500 None) ?fs = (Inl HTTPError, ?fs)"
    by blast
  from w j have 3: "update_city_map (Response 200 None) ?fs = (Inl JSONDecodeError, ?fs)"
    by blast
  from st 1 2 3 j show ?thesis by blast
qed

text \<open>
  The claim as stated names the error \<open>UpstreamUnavailable\<close>; the error raised at status
  500 is \<open>HTTPError\<close>.
\<close>

theorem city_refresh_error_counterexample:
  "fst (update_city_map (Response 500 None) \<lparr>cities_data_csv = None\<rparr>) = Inl HTTPError
   \<and> fst (update_city_map (Response 500 None) \<lparr>cities_data_csv = None\<rparr>) \<noteq> Inl UpstreamUnavailable"
  by (simp add: update_city_map_def get_json_def)

subsection \<open>Decimal digits\<close>

lemma decimal_nonempty: "decimal n \<noteq> []"
  by (subst decimal.simps) simp

lemma decimal_digits: "list_all digit (decimal n)"
proof (induction n rule: decimal.induct)
  case (1 n)
  show ?case
  proof (cases "n < 10")
    case True
    then show ?thesis by (subst decimal.simps) (simp add: digit_def)
  next
    case False
    have "n mod 10 < 10" by simp
    then have "digit (48 + n mod 10)" unfolding digit_def by linarith
    with False 1 show ?thesis by (subst decimal.simps) simp
  qed
qed

lemma decimal_value:
  "foldl (\<lambda>acc c. 10 * acc + (c - 48)) 0 (decimal n) = n"
proof (induction n rule: decimal.induct)
  case (1 n)
  show ?case
  proof (cases "n < 10")
    case True
    then show ?thesis by (subst decimal.simps) simp
  next
    case False
    with 1 show ?thesis by (subst decimal.simps) simp
  qed
qed

lemma decimal_length_le:
  "n < 10 ^ k \<Longrightarrow> 0 < k \<Longrightarrow> length (decimal n) \<le> k"
proof (induction n arbitrary: k rule: decimal.induct)
  case (1 n)
  show ?case
  proof (cases "n < 10")
    case True
    with 1(3) show ?thesis by (subst decimal.simps) simp
  next
    case False
    from 1(3) obtain j where k: "k = Suc j" by (cases k) auto
    with False 1(2) have j: "0 < j" by (cases j) auto
    from 1(2) k have "n div 10 < 10 ^ j"
      by (simp add: less_mult_imp_div_less mult.commute)
    from 1(1) [OF False this j] False k show ?thesis
      by (subst decimal.simps) simp
  qed
qed

lemma decimal_length_gt:
  "10 ^ k \<le> n \<Longrightarrow> k < length (decimal n)"
proof (induction n arbitrary: k rule: decimal.induct)
  case (1 n)
  show ?case
  proof (cases k)
    case 0
    with decimal_nonempty [of n] show ?thesis by (cases "decimal n") auto
  next
    case (Suc j)
    with 1(2) have big: "\<not> n < 10"
      by (metis not_less power_Suc le_trans mult.right_neutral mult_le_mono2 one_le_numeral one_le_power)
    from 1(2) Suc have "10 ^ j \<le> n div 10"
      by (simp add: less_eq_div_iff_mult_less_eq mult.commute)
    from 1(1) [OF big this] big Suc show ?thesis
      by (subst decimal.simps) simp
  qed
qed

lemma parse_nat_zero_fill:
  "parse_nat (zero_fill w (decimal n)) = Some n"
proof -
  have z: "foldl (\<lambda>acc c. 10 * acc + (c - 48)) 0 (replicate k 48) = (0::nat)" for k
    by (induction k) simp_all
  have "list_all digit (replicate k 48)" for k
    by (induction k) (simp_all add: digit_def)
  then have "list_all digit (zero_fill w (decimal n))"
    using decimal_digits [of n] by (simp add: zero_fill_def)
  moreover have "zero_fill w (decimal n) \<noteq> []"
    using decimal_nonempty [of n] by (simp add: zero_fill_def)
  moreover have "foldl (\<lambda>acc c. 10 * acc + (c - 48)) 0 (zero_fill w (decimal n)) = n"
    by (simp add: zero_fill_def z decimal_value)
  ultimately show ?thesis by (simp add: parse_nat_def)
qed

lemma format_05d_small:
  assumes "0 \<le> n" "n \<le> 99999"
  shows "length (format_05d n) = 5 \<and> list_all digit (format_05d n)
       \<and> parse_nat (format_05d n) = Some (nat n)"
proof -
  have "nat n < 10 ^ 5" using assms by simp
  then have len: "length (decimal (nat n)) \<le> 5"
    by (rule decimal_length_le) simp
  have f: "format_05d n = zero_fill 5 (decimal (nat n))"
    using assms by (simp add: format_05d_def)
  have "length (zero_fill 5 (decimal (nat n))) = 5"
    using len by (simp add: zero_fill_def)
  moreover have "list_all digit (zero_fill 5 (decimal (nat n)))"
    using parse_nat_zero_fill [of 5 "nat n"] by (simp add: parse_nat_def split: if_splits)
  ultimately show ?thesis
    by (simp add: f parse_nat_zero_fill)
qed

lemma format_05d_large:
  assumes "100000 \<le> n"
  shows "format_05d n = decimal (nat n) \<and> 5 < length (format_05d n)"
proof -
  have "10 ^ 5 \<le> nat n" using assms by simp
  then have len: "5 < length (decimal (nat n))"
    by (rule decimal_length_gt)
  then show ?thesis
    using assms by (simp add: format_05d_def zero_fill_def)
qed

lemma replicate_small:
  "replicate 2 x = [x, x]" "replicate 3 x = [x, x, x]" "replicate 4 x = [x, x, x, x]"
  by (simp_all add: numeral_2_eq_2 numeral_3_eq_3 numeral_Bit0)

section \<open>The counters\<close>

text \<open>
  C8 (as amended). The four published totals are the \<open>05d\<close> renderings of the four fields
  of the first element of the global variables. A total from 0 to 99999 is rendered as
  exactly five decimal digits, zero-padded, that denote it; a total of 100000 or more is
  rendered with all its digits, more than five.
\<close>

theorem counters_zero_padded:
  assumes "get_json r = Inr res"
      and "wuwei_ww_global_vars res = g # rest"
  shows "update_counts now r =
           Inr (update_time_label @ now, format_05d (confirmCount g), format_05d (suspectCount g),
                format_05d (global_vars.deadCount g), format_05d (cure g))
       \<and> (\<forall>n. 0 \<le> n \<and> n \<le> 99999 \<longrightarrow>
             length (format_05d n) = 5 \<and> list_all digit (format_05d n)
           \<and> parse_nat (format_05d n) = Some (nat n))
       \<and> (\<forall>n. 100000 \<le> n \<longrightarrow> format_05d n = decimal (nat n) \<and> 5 < length (format_05d n))"
proof -
  have 1: "update_counts now r =
           Inr (update_time_label @ now, format_05d (confirmCount g), format_05d (suspectCount g),
                format_05d (global_vars.deadCount g), format_05d (cure g))"
    using assms by (simp add: update_counts_def index0_def)
  have 2: "\<forall>n. 0 \<le> n \<and> n \<le> 99999 \<longrightarrow>
             length (format_05d n) = 5 \<and> list_all digit (format_05d n)
           \<and> parse_nat (format_05d n) = Some (nat n)"
  proof (intro allI impI)
    fix n :: int
    assume "0 \<le> n \<and> n \<le> 99999"
    then have "0 \<le> n" "n \<le> 99999" by simp_all
    then show "length (format_05d n) = 5 \<and> list_all digit (format_05d n)
           \<and> parse_nat (format_05d n) = Some (nat n)"
      by (rule format_05d_small)
  qed
  have 3: "\<forall>n. 100000 \<le> n \<longrightarrow> format_05d n = decimal (nat n) \<and> 5 < length (format_05d n)"
    by (intro allI impI) (rule format_05d_large)
  show ?thesis
    by (intro conjI) (rule 1, rule 2, rule 3)
qed

theorem counters_zero_padded_witness:
  "get_json (Response 200 (Some \<lparr>wuwei_ww_cn_day_counts = sample_days,
                                   wuwei_ww_global_vars = [sample_globals]\<rparr>)) =
     Inr \<lparr>wuwei_ww_cn_day_counts = sample_days, wuwei_ww_global_vars = [sample_globals]\<rparr>
   \<and> update_counts sample_clock
       (Response 200 (Some \<lparr>wuwei_ww_cn_day_counts = sample_days,
                             wuwei_ww_global_vars = [sample_globals]\<rparr>)) =
     Inr (update_time_label @ sample_clock, ascii ''00830'', ascii ''01072'', ascii ''00025'',
          ascii ''00034'')
   \<and> length (format_05d 830) = 5 \<and> parse_nat (format_05d 830) = Some 830"
proof -
  let ?res = "\<lparr>wuwei_ww_cn_day_counts = sample_days, wuwei_ww_global_vars = [sample_globals]\<rparr>"
  have g: "get_json (Response 200 (Some ?res)) = Inr ?res"
    by (simp add: get_json_def)
  have v: "wuwei_ww_global_vars ?res = sample_globals # []"
    by simp
  have f: "format_05d (confirmCount sample_globals) = ascii ''00830''"
    "format_05d (suspectCount sample_globals) = ascii ''01072''"
    "format_05d (global_vars.deadCount sample_globals) = ascii ''00025''"
    "format_05d (cure sample_globals) = ascii ''00034''"
    by code_simp+
  note w = counters_zero_padded [OF g v, of sample_clock]
  from w have a: "update_counts sample_clock (Response 200 (Some ?res)) =
      Inr (update_time_label @ sample_clock, format_05d (confirmCount sample_globals),
           format_05d (suspectCount sample_globals), format_05d (global_vars.deadCount sample_globals),
           format_05d (cure sample_globals))"
    by (rule conjunct1)
  from w have b: "\<forall>n. 0 \<le> n \<and> n \<le> 99999 \<longrightarrow>
             length (format_05d n) = 5 \<and> list_all digit (format_05d n)
           \<and> parse_nat (format_05d n) = Some (nat n)"
    by (rule conjunct1 [OF conjunct2])
  have c: "length (format_05d 830) = 5 \<and> parse_nat (format_05d 830) = Some 830"
    using b [THEN spec, of 830] by simp
  show ?thesis
    by (intro conjI) (rule g, simp only: a f, rule conjunct1 [OF c], rule conjunct2 [OF c])
qed

text \<open>
  The claim as stated, a fixed width of five digits for every payload, fails at a total
  of 100000: it is rendered with six digits.
\<close>

theorem counters_width_counterexample:
  "update_counts sample_clock
       (Response 200 (Some \<lparr>wuwei_ww_cn_day_counts = sample_days,
                             wuwei_ww_global_vars = [sample_globals\<lparr>confirmCount := 100000\<rparr>]\<rparr>)) =
     Inr (update_time_label @ sample_clock, ascii ''100000'', ascii ''01072'', ascii ''00025'',
          ascii ''00034'')
   \<and> length (ascii ''100000'') = 6"
proof -
  have f: "format_05d 100000 = ascii ''100000''" "format_05d 1072 = ascii ''01072''"
    "format_05d 25 = ascii ''00025''" "format_05d 34 = ascii ''00034''"
    by (simp_all add: format_05d_def zero_fill_def decimal.simps ascii_def replicate_small)
  have run: "update_counts sample_clock
       (Response 200 (Some \<lparr>wuwei_ww_cn_day_counts = sample_days,
                             wuwei_ww_global_vars = [sample_globals\<lparr>confirmCount := 100000\<rparr>]\<rparr>)) =
     Inr (update_time_label @ sample_clock, format_05d 100000, format_05d 1072, format_05d 25,
          format_05d 34)"
    by (simp add: update_counts_def get_json_def index0_def sample_globals_def)
  have len: "length (ascii ''100000'') = 6"
    by (simp add: ascii_def)
  show ?thesis
    by (intro conjI) (simp only: run f, rule len)
qed

text \<open>
  C9 (as amended). When the list of global variables is empty, \<open>update_counts\<close> fails at
  \<open>[0]\<close> with \<open>IndexError\<close> and publishes nothing.
\<close>

theorem update_counts_empty_globals:
  assumes "get_json r = Inr res"
      and "wuwei_ww_global_vars res = []"
  shows "update_counts now r = Inl IndexError"
  using assms by (simp add: update_counts_def index0_def)

theorem update_counts_empty_globals_witness:
  "get_json (Response 200 (Some \<lparr>wuwei_ww_cn_day_counts = sample_days, wuwei_ww_global_vars = []\<rparr>)) =
     Inr \<lparr>wuwei_ww_cn_day_counts = sample_days, wuwei_ww_global_vars = []\<rparr>
   \<and> update_counts sample_clock
       (Response 200 (Some \<lparr>wuwei_ww_cn_day_counts = sample_days, wuwei_ww_global_vars = []\<rparr>)) =
     Inl IndexError"
proof -
  let ?res = "\<lparr>wuwei_ww_cn_day_counts = sample_days, wuwei_ww_global_vars = []\<rparr>"
  have g: "get_json (Response 200 (Some ?res)) = Inr ?res"
    by (simp add: get_json_def)
  have v: "wuwei_ww_global_vars ?res = []"
    by simp
  show ?thesis
    by (intro conjI) (rule g, rule update_counts_empty_globals [OF g v])
qed

text \<open>
  The claim as stated names the error \<open>MalformedResponse\<close>; the error raised on the empty
  list is \<open>IndexError\<close>.
\<close>

theorem update_counts_error_counterexample:
  "update_counts sample_clock
       (Response 200 (Some \<lparr>wuwei_ww_cn_day_counts = sample_days, wuwei_ww_global_vars = []\<rparr>)) =
     Inl IndexError
   \<and> update_counts sample_clock
       (Response 200 (Some \<lparr>wuwei_ww_cn_day_counts = sample_days, wuwei_ww_global_vars = []\<rparr>)) \<noteq>
     Inl MalformedResponse"
  by (simp add: update_counts_def get_json_def index0_def)

text \<open>
  C10. Two payloads whose global variables differ at most in \<open>update_time\<close> give the same
  five outputs, and the text of the refresh time is the label followed by the reading of
  the local clock.
\<close>

theorem update_counts_ignores_update_time:
  assumes "same_but_update_time (wuwei_ww_global_vars res1) (wuwei_ww_global_vars res2)"
  shows "update_counts now (Response status_code (Some res1)) =
           update_counts now (Response status_code (Some res2))
       \<and> (\<forall>out. update_counts now (Response status_code (Some res1)) = Inr out \<longrightarrow>
             fst out = update_time_label @ now)"
proof -
  let ?f = "\<lambda>g. Inr (update_time_label @ now, format_05d (confirmCount g),
                format_05d (suspectCount g), format_05d (global_vars.deadCount g),
                format_05d (cure g)) :: error + (str \<times> str \<times> str \<times> str \<times> str)"
  have run: "update_counts now (Response status_code (Some res)) =
      (if 400 \<le> status_code \<and> status_code < 600 then Inl HTTPError
       else (case wuwei_ww_global_vars res of [] \<Rightarrow> Inl IndexError | g # _ \<Rightarrow> ?f g))" for res
    by (simp add: update_counts_def get_json_def index0_def split: list.splits)
  have same: "(case wuwei_ww_global_vars res1 of [] \<Rightarrow> Inl IndexError | g # _ \<Rightarrow> ?f g) =
              (case wuwei_ww_global_vars res2 of [] \<Rightarrow> Inl IndexError | g # _ \<Rightarrow> ?f g)"
  proof (cases "wuwei_ww_global_vars res1")
    case Nil
    with assms have "wuwei_ww_global_vars res2 = []"
      by (simp add: same_but_update_time_def)
    with Nil show ?thesis by simp
  next
    case (Cons g gs)
    with assms obtain h hs where h: "wuwei_ww_global_vars res2 = h # hs"
      and eq: "h = g\<lparr>update_time := update_time h\<rparr>"
      by (auto simp: same_but_update_time_def list_all2_Cons1)
    have "confirmCount h = confirmCount g" "suspectCount h = suspectCount g"
      "global_vars.deadCount h = global_vars.deadCount g" "cure h = cure g"
      by (subst eq, simp)+
    with Cons h show ?thesis by simp
  qed
  have 1: "update_counts now (Response status_code (Some res1)) =
           update_counts now (Response status_code (Some res2))"
    by (simp only: run same)
  have 2: "\<forall>out. update_counts now (Response status_code (Some res1)) = Inr out \<longrightarrow>
             fst out = update_time_label @ now"
    by (auto simp: run split: list.splits if_splits)
  show ?thesis
    by (intro conjI) (rule 1, rule 2)
qed

theorem update_counts_ignores_update_time_witness:
  "same_but_update_time [sample_globals] [sample_globals\<lparr>update_time := ascii ''2020-01-25 09:30''\<rparr>]
   \<and> update_counts sample_clock
       (Response 200 (Some \<lparr>wuwei_ww_cn_day_counts = sample_days,
                             wuwei_ww_global_vars = [sample_globals]\<rparr>)) =
     update_counts sample_clock
       (Response 200 (Some \<lparr>wuwei_ww_cn_day_counts = sample_days,
                             wuwei_ww_global_vars =
                               [sample_globals\<lparr>update_time := ascii ''2020-01-25 09:30''\<rparr>]\<rparr>))"
proof -
  let ?res1 = "\<lparr>wuwei_ww_cn_day_counts = sample_days, wuwei_ww_global_vars = [sample_globals]\<rparr>"
  let ?res2 = "\<lparr>wuwei_ww_cn_day_counts = sample_days,
                wuwei_ww_global_vars = [sample_globals\<lparr>update_time := ascii ''2020-01-25 09:30''\<rparr>]\<rparr>"
  have s: "same_but_update_time (wuwei_ww_global_vars ?res1) (wuwei_ww_global_vars ?res2)"
    by (simp add: same_but_update_time_def)
  have e: "update_counts sample_clock (Response 200 (Some ?res1)) =
           update_counts sample_clock (Response 200 (Some ?res2))"
    by (rule conjunct1 [OF update_counts_ignores_update_time [OF s]])
  have s': "same_but_update_time [sample_globals]
              [sample_globals\<lparr>update_time := ascii ''2020-01-25 09:30''\<rparr>]"
    using s by simp
  show ?thesis
    by (intro conjI) (rule s', rule e)
qed

end
